theory Spec2Isabelle
  imports Main "HOL-Library.Word"
begin

section \<open>Data model of server.go\<close>

text \<open>
  The daemon's server (src/server.go) owns the registry of active peers and offers
  Start, Stop, a peer manager loop and a query handler loop. Go's \<open>int32\<close> is a
  32-bit word, so the two atomic counters wrap around as in the program. An
  \<open>error\<close> is represented by its message; Go's nil error is \<open>None\<close>. A
  channel handed over in a message is represented by a number naming it.
\<close>

type_synonym int32 = "32 word"
type_synonym error = string
type_synonym chan = nat
type_synonym bytes = "nat list"

text \<open>
  Modelled from the spec: the type \<open>lndc.LNAdr\<close> is declared outside src/. The
  dialer reads its public key (nil or the compressed serialisation), the script
  address of its base58 address and its network address, and the duplicate check
  compares the result of its \<open>String()\<close> method, kept here as a field.
\<close>

record LNAdr =
  PubKey :: "bytes option"
  Base58Adr :: bytes
  NetAddr :: string
  adr_String :: string

text \<open>
  Modelled from the spec: the type \<open>peer\<close> is declared outside src/ (section 3 of
  the spec: identifier, underlying authenticated connection, remote identity,
  direction). server.go reads \<open>id\<close> and \<open>lightningAddr\<close> and calls
  \<open>Start()\<close> and \<open>Stop()\<close>, which are recorded as events.
\<close>

record peer =
  id_peer :: int32
  lightningAddr :: LNAdr
  conn :: nat
  inbound :: bool

datatype listener = Listener string

type_synonym OutPoint = "bytes \<times> int32"

record connectPeerMsg =
  addr :: LNAdr
  resp :: chan
  err :: chan

record listPeersMsg =
  resp_peers :: chan

text \<open>
  Everything the server does to the outside is an event appended to a trace, in
  program order: calls into the collaborators (listeners, RPC server, wallet,
  funding manager, peers), goroutines launched, wait group operations and channel
  sends. A send is recorded when the program reaches it; whether it then blocks is
  decided by the receiver, which is not part of this file. Log output is left out.
\<close>

datatype event =
    ListenerClose listener
  | RpcServerStop
  | WalletShutdown
  | FundingMgrStart
  | FundingMgrStop
  | WgAdd nat
  | WgDone
  | WgWait
  | GoListener listener
  | GoPeerManager
  | GoQueryHandler
  | GoConnect connectPeerMsg
  | PeerStart peer
  | PeerStop peer
  | SendNewPeers peer
  | SendErr chan "error option"
  | SendResp chan int32
  | SendPeers chan nat

text \<open>
  The fields of \<open>struct server\<close> that the code of server.go reads or writes,
  followed by the two parts of the world around it: the trace of events and the
  slices allocated with \<open>make\<close> (a slice's address is its position in
  \<open>slices\<close>). \<open>quit\<close> tells whether the quit channel has been closed.
\<close>

record server =
  started :: int32
  shutdown :: int32
  identityPriv :: bytes
  listeners :: "listener list"
  peers :: "int32 \<rightharpoonup> peer"
  chanIndex :: "OutPoint \<rightharpoonup> peer"
  quit :: bool
  trace :: "event list"
  slices :: "peer list list"

datatype 'a outcome = Return 'a | Panic string

section \<open>Construction, Start and Stop\<close>

text \<open>
  \<open>newServer\<close>: the identity key comes from the database and the wallet
  (\<open>getIdentityPrivKey\<close>, given by its result), then one listener is opened per
  address, stopping at the first failure.
\<close>

fun newListeners :: "(string \<Rightarrow> error + listener) \<Rightarrow> string list \<Rightarrow> error + listener list" where
  "newListeners nl [] = Inr []"
| "newListeners nl (a # as) =
     (case nl a of
        Inl e \<Rightarrow> Inl e
      | Inr l \<Rightarrow> (case newListeners nl as of Inl e \<Rightarrow> Inl e | Inr ls \<Rightarrow> Inr (l # ls)))"

definition newServer :: "(error + bytes) \<Rightarrow> (string \<Rightarrow> error + listener) \<Rightarrow> string list \<Rightarrow> error + server" where
  "newServer getIdentityPrivKey nl listenAddrs =
     (case getIdentityPrivKey of
        Inl e \<Rightarrow> Inl e
      | Inr privKey \<Rightarrow>
          (case newListeners nl listenAddrs of
             Inl e \<Rightarrow> Inl e
           | Inr ls \<Rightarrow>
               Inr \<lparr>started = 0, shutdown = 0, identityPriv = privKey, listeners = ls,
                    peers = Map.empty, chanIndex = Map.empty, quit = False,
                    trace = [], slices = []\<rparr>))"

primrec startListeners :: "listener list \<Rightarrow> event list" where
  "startListeners [] = []"
| "startListeners (l # ls) = WgAdd 1 # GoListener l # startListeners ls"

definition Start :: "server \<Rightarrow> server" where
  "Start s =
     (let s1 = s\<lparr>started := started s + 1\<rparr> in
      if started s1 \<noteq> 1 then s1
      else s1\<lparr>trace := trace s1 @ startListeners (listeners s1)
                    @ [FundingMgrStart, WgAdd 2, GoPeerManager, GoQueryHandler]\<rparr>)"

text \<open>
  The loop of \<open>Stop\<close> over the listeners: \<open>Close\<close> is called on each in
  turn (its result is given by \<open>cl\<close>) and the first error ends the loop and is
  returned.
\<close>

fun closeListeners :: "(listener \<Rightarrow> error option) \<Rightarrow> listener list \<Rightarrow> event list \<times> error option" where
  "closeListeners cl [] = ([], None)"
| "closeListeners cl (l # ls) =
     (case cl l of
        Some e \<Rightarrow> ([ListenerClose l], Some e)
      | None \<Rightarrow> (case closeListeners cl ls of (evs, r) \<Rightarrow> (ListenerClose l # evs, r)))"

text \<open>
  \<open>Stop\<close>: the counter is incremented atomically and only the call that reads 1
  goes on. Closing a channel that is already closed panics in Go.
\<close>

definition Stop :: "(listener \<Rightarrow> error option) \<Rightarrow> server \<Rightarrow> server \<times> error option outcome" where
  "Stop cl s =
     (let s1 = s\<lparr>shutdown := shutdown s + 1\<rparr> in
      if shutdown s1 \<noteq> 1 then (s1, Return None)
      else
        (case closeListeners cl (listeners s1) of
           (evs, Some e) \<Rightarrow> (s1\<lparr>trace := trace s1 @ evs\<rparr>, Return (Some e))
         | (evs, None) \<Rightarrow>
             (let s2 = s1\<lparr>trace := trace s1 @ evs @ [RpcServerStop, WalletShutdown, FundingMgrStop]\<rparr> in
              if quit s2 then (s2, Panic ''close of closed channel'')
              else (s2\<lparr>quit := True, trace := trace s2 @ [WgWait]\<rparr>, Return None))))"

section \<open>The peer registry\<close>

text \<open>A \<open>*peer\<close> may be nil: the argument is a \<open>peer option\<close>.\<close>

definition addPeer :: "server \<Rightarrow> peer option \<Rightarrow> server" where
  "addPeer s p =
     (case p of
        None \<Rightarrow> s
      | Some p' \<Rightarrow>
          if shutdown s \<noteq> 0 then s\<lparr>trace := trace s @ [PeerStop p']\<rparr>
          else s\<lparr>peers := (peers s)(id_peer p' \<mapsto> p')\<rparr>)"

definition removePeer :: "server \<Rightarrow> peer option \<Rightarrow> server" where
  "removePeer s p =
     (case p of
        None \<Rightarrow> s
      | Some p' \<Rightarrow>
          if shutdown s \<noteq> 0 then s\<lparr>trace := trace s @ [PeerStop p']\<rparr>
          else s\<lparr>peers := (peers s)(id_peer p' := None)\<rparr>)"

text \<open>
  \<open>peerManager\<close>: the values its select receives, in order. With nothing left to
  receive the loop waits; after the quit signal it leaves the loop and signs off at
  the wait group.
\<close>

datatype pm_recv = RecvNewPeer "peer option" | RecvDonePeer "peer option" | RecvQuit

fun peerManager :: "server \<Rightarrow> pm_recv list \<Rightarrow> server" where
  "peerManager s [] = s"
| "peerManager s (RecvNewPeer p # rs) = peerManager (addPeer s p) rs"
| "peerManager s (RecvDonePeer p # rs) = peerManager (removePeer s p) rs"
| "peerManager s (RecvQuit # rs) = s\<lparr>trace := trace s @ [WgDone]\<rparr>"

section \<open>Queries\<close>

text \<open>
  Go visits the entries of a map in an order of the runtime's choosing, so every
  \<open>range\<close> loop over \<open>s.peers\<close> takes the order \<open>ks\<close> in which the keys are
  visited. The theorems hold for every enumeration of the keys.

  \<open>handleListPeers\<close>: a new slice is made, the peers are appended to it as the
  loop visits them, and the slice is sent on the reply channel of the message.
\<close>

fun appendPeers :: "(int32 \<rightharpoonup> peer) \<Rightarrow> int32 list \<Rightarrow> peer list \<Rightarrow> peer list" where
  "appendPeers m [] ps = ps"
| "appendPeers m (k # ks) ps =
     (case m k of
        None \<Rightarrow> appendPeers m ks ps
      | Some peer \<Rightarrow> appendPeers m ks (ps @ [peer]))"

definition handleListPeers :: "int32 list \<Rightarrow> server \<Rightarrow> listPeersMsg \<Rightarrow> server" where
  "handleListPeers ks s msg =
     (let a = length (slices s);
          ps = appendPeers (peers s) ks []
      in s\<lparr>slices := slices s @ [ps], trace := trace s @ [SendPeers (resp_peers msg) a]\<rparr>)"

text \<open>
  \<open>handleConnectPeer\<close>: the loop over the registered peers sends an error and the
  id -1 for every peer whose address prints as the requested one; the body has no
  \<open>break\<close> and no \<open>return\<close>, so the loop visits every entry and the statement
  after it, which launches the dialing goroutine, is always reached.
\<close>

fun alreadyConnected :: "(int32 \<rightharpoonup> peer) \<Rightarrow> connectPeerMsg \<Rightarrow> int32 list \<Rightarrow> event list" where
  "alreadyConnected m msg [] = []"
| "alreadyConnected m msg (k # ks) =
     (case m k of
        None \<Rightarrow> alreadyConnected m msg ks
      | Some peer \<Rightarrow>
          (if adr_String (lightningAddr peer) = adr_String (addr msg)
           then [SendErr (err msg) (Some (''already connected to peer: '' @ adr_String (lightningAddr peer))),
                 SendResp (resp msg) (- 1)]
           else [])
          @ alreadyConnected m msg ks)"

definition handleConnectPeer :: "int32 list \<Rightarrow> server \<Rightarrow> connectPeerMsg \<Rightarrow> server" where
  "handleConnectPeer ks s msg =
     s\<lparr>trace := trace s @ alreadyConnected (peers s) msg ks @ [GoConnect msg]\<rparr>"

text \<open>
  The goroutine launched by \<open>handleConnectPeer\<close>. \<open>dial\<close> gives the result of
  \<open>conn.Dial\<close> (transport connection and handshake) for the identity key, the
  network address and the remote id; \<open>newPeer\<close> gives the result of wrapping the
  connection into a peer.
\<close>

definition remoteId :: "LNAdr \<Rightarrow> bytes" where
  "remoteId a = (case PubKey a of None \<Rightarrow> Base58Adr a | Some k \<Rightarrow> k)"

definition connectGoroutine ::
  "(bytes \<Rightarrow> string \<Rightarrow> bytes \<Rightarrow> error option) \<Rightarrow> (error + peer) \<Rightarrow> server \<Rightarrow> connectPeerMsg \<Rightarrow> server" where
  "connectGoroutine dial newPeer s msg =
     (case dial (identityPriv s) (NetAddr (addr msg)) (remoteId (addr msg)) of
        Some e \<Rightarrow> s\<lparr>trace := trace s @ [SendErr (err msg) (Some e), SendResp (resp msg) (- 1)]\<rparr>
      | None \<Rightarrow>
          (case newPeer of
             Inl e \<Rightarrow> s\<lparr>trace := trace s @ [SendResp (resp msg) (- 1), SendErr (err msg) (Some e)]\<rparr>
           | Inr peer \<Rightarrow>
               s\<lparr>trace := trace s @ [PeerStart peer, SendNewPeers peer,
                                       SendResp (resp msg) (id_peer peer), SendErr (err msg) None]\<rparr>))"

text \<open>
  \<open>queryHandler\<close>: the values its select receives, in order; a query of any other
  type than the two messages falls through the type switch.
\<close>

datatype query = ConnectPeerQuery connectPeerMsg | ListPeersQuery listPeersMsg | OtherQuery

datatype qh_recv = RecvQuery "int32 list" query | RecvQuitQuery

fun queryHandler :: "server \<Rightarrow> qh_recv list \<Rightarrow> server" where
  "queryHandler s [] = s"
| "queryHandler s (RecvQuery ks (ConnectPeerQuery msg) # rs) = queryHandler (handleConnectPeer ks s msg) rs"
| "queryHandler s (RecvQuery ks (ListPeersQuery msg) # rs) = queryHandler (handleListPeers ks s msg) rs"
| "queryHandler s (RecvQuery ks OtherQuery # rs) = queryHandler s rs"
| "queryHandler s (RecvQuitQuery # rs) = s\<lparr>trace := trace s @ [WgDone]\<rparr>"

text \<open>
  \<open>listener\<close>: the accept loop of one listener, over the results of its
  \<open>Accept\<close> calls (an error, or a connection with the result of \<open>newPeer\<close> on
  it). The shutdown flag is read before every round.
\<close>

datatype accepted = AcceptError error | AcceptConn "error + peer"

fun listener_loop :: "server \<Rightarrow> listener \<Rightarrow> accepted list \<Rightarrow> server" where
  "listener_loop s l [] =
     (if shutdown s \<noteq> 0 then s\<lparr>trace := trace s @ [WgDone]\<rparr> else s)"
| "listener_loop s l (a # as) =
     (if shutdown s \<noteq> 0 then s\<lparr>trace := trace s @ [WgDone]\<rparr>
      else
        (case a of
           AcceptError e \<Rightarrow> listener_loop s l as
         | AcceptConn (Inl e) \<Rightarrow> listener_loop s l as
         | AcceptConn (Inr peer) \<Rightarrow>
             listener_loop (s\<lparr>trace := trace s @ [PeerStart peer, SendNewPeers peer]\<rparr>) l as))"

text \<open>
  The entry points of the server: the two public methods and the bodies of the
  goroutines, each with what the world outside hands to it.
\<close>

datatype call =
    CallStart
  | CallStop "listener \<Rightarrow> error option"
  | CallPeerManager "pm_recv list"
  | CallQueryHandler "qh_recv list"
  | CallConnect "bytes \<Rightarrow> string \<Rightarrow> bytes \<Rightarrow> error option" "error + peer" connectPeerMsg
  | CallListener listener "accepted list"

fun run :: "call \<Rightarrow> server \<Rightarrow> server" where
  "run CallStart s = Start s"
| "run (CallStop cl) s = fst (Stop cl s)"
| "run (CallPeerManager rs) s = peerManager s rs"
| "run (CallQueryHandler rs) s = queryHandler s rs"
| "run (CallConnect dial newPeer msg) s = connectGoroutine dial newPeer s msg"
| "run (CallListener l as) s = listener_loop s l as"

section \<open>Invariants of the registry\<close>

text \<open>Every entry of the peer map is stored under the id of its peer.\<close>

definition keyed_by_id :: "(int32 \<rightharpoonup> peer) \<Rightarrow> bool" where
  "keyed_by_id m = (\<forall>k p. m k = Some p \<longrightarrow> id_peer p = k)"

text \<open>Every peer of the outpoint index has its id in the peer map.\<close>

definition chanIndex_inv :: "server \<Rightarrow> bool" where
  "chanIndex_inv s = (\<forall>op p. chanIndex s op = Some p \<longrightarrow> id_peer p \<in> dom (peers s))"

text \<open>
  Whether the peer manager, given these values to receive, gets to a finished peer
  (values after the quit signal are never received), and the calls that do not.
\<close>

fun receives_done :: "pm_recv list \<Rightarrow> bool" where
  "receives_done [] = False"
| "receives_done (RecvNewPeer p # rs) = receives_done rs"
| "receives_done (RecvDonePeer p # rs) = True"
| "receives_done (RecvQuit # rs) = False"

fun no_done :: "call \<Rightarrow> bool" where
  "no_done (CallPeerManager rs) = (\<not> receives_done rs)"
| "no_done c = True"

text \<open>\<open>n\<close> calls of \<open>Stop\<close> in a row.\<close>

fun Stop_times :: "nat \<Rightarrow> (listener \<Rightarrow> error option) \<Rightarrow> server \<Rightarrow> server" where
  "Stop_times 0 cl s = s"
| "Stop_times (Suc n) cl s = Stop_times n cl (fst (Stop cl s))"

section \<open>Concrete inputs\<close>

text \<open>
  A fresh server with two listeners, a peer \<open>peerA\<close> with id 7 and address
  \<open>X\<close>, a second peer \<open>peerB\<close> with the same id on another connection, a third
  peer \<open>peerC\<close> with id 8 and the same address, and a request to connect to
  \<open>X\<close>.
\<close>

definition adrX :: LNAdr where
  "adrX = \<lparr>PubKey = None, Base58Adr = [1, 2, 3], NetAddr = ''10.0.0.1:10011'', adr_String = ''X''\<rparr>"

definition peerA :: peer where
  "peerA = \<lparr>id_peer = 7, lightningAddr = adrX, conn = 1, inbound = False\<rparr>"

definition peerB :: peer where
  "peerB = \<lparr>id_peer = 7, lightningAddr = adrX, conn = 2, inbound = False\<rparr>"

definition peerC :: peer where
  "peerC = \<lparr>id_peer = 8, lightningAddr = adrX, conn = 3, inbound = True\<rparr>"

definition server0 :: server where
  "server0 = \<lparr>started = 0, shutdown = 0, identityPriv = [9], listeners = [Listener ''a'', Listener ''b''],
              peers = Map.empty, chanIndex = Map.empty, quit = False, trace = [], slices = []\<rparr>"

definition serverA :: server where
  "serverA = server0\<lparr>peers := [7 \<mapsto> peerA]\<rparr>"

definition msgX :: connectPeerMsg where
  "msgX = \<lparr>addr = adrX, resp = 1, err = 2\<rparr>"

text \<open>The same server with a channel of \<open>peerA\<close> in the outpoint index.\<close>

definition serverI :: server where
  "serverI = serverA\<lparr>chanIndex := [([0], 0) \<mapsto> peerA]\<rparr>"

text \<open>That server with \<open>peerC\<close> registered as well, under its id 8.\<close>

definition serverJ :: server where
  "serverJ = serverI\<lparr>peers := [7 \<mapsto> peerA, 8 \<mapsto> peerC]\<rparr>"

section \<open>Theorems\<close>

lemma newServer_server0:
  "newServer (Inr [9]) (\<lambda>a. Inr (Listener a)) [''a'', ''b''] = Inr server0"
  by (simp add: newServer_def server0_def)

subsection \<open>Connecting to a peer\<close>

text \<open>
  C1 (the code departs from the claim). With \<open>peerA\<close> registered under the
  requested address, \<open>handleConnectPeer\<close> sends the error and the id -1 and then
  still launches the dialing goroutine; when that dial succeeds, a new peer is
  started, handed to the peer manager and registered, and a second id and a second
  (nil) error are sent on the same reply channels. With two registered peers under
  the requested address the loop itself sends two errors and two ids.
\<close>

theorem handleConnectPeer_duplicate_still_dials:
  "handleConnectPeer [7] serverA msgX =
     serverA\<lparr>trace := [SendErr 2 (Some ''already connected to peer: X''), SendResp 1 (- 1),
                       GoConnect msgX]\<rparr> \<and>
   handleConnectPeer [7, 8] (serverA\<lparr>peers := [7 \<mapsto> peerA, 8 \<mapsto> peerC]\<rparr>) msgX =
     serverA\<lparr>peers := [7 \<mapsto> peerA, 8 \<mapsto> peerC],
             trace := [SendErr 2 (Some ''already connected to peer: X''), SendResp 1 (- 1),
                       SendErr 2 (Some ''already connected to peer: X''), SendResp 1 (- 1),
                       GoConnect msgX]\<rparr> \<and>
   peers (peerManager (connectGoroutine (\<lambda>k a r. None) (Inr peerC) (handleConnectPeer [7] serverA msgX) msgX)
            [RecvNewPeer (Some peerC)]) = [7 \<mapsto> peerA, 8 \<mapsto> peerC] \<and>
   trace (connectGoroutine (\<lambda>k a r. None) (Inr peerC) (handleConnectPeer [7] serverA msgX) msgX) =
     [SendErr 2 (Some ''already connected to peer: X''), SendResp 1 (- 1), GoConnect msgX,
      PeerStart peerC, SendNewPeers peerC, SendResp 1 8, SendErr 2 None]"
  by (simp add: handleConnectPeer_def connectGoroutine_def addPeer_def serverA_def server0_def msgX_def
      peerA_def peerC_def adrX_def)

text \<open>
  C3. When the dial (transport connection and handshake) fails, the goroutine sends
  the error and the id -1 and changes nothing else; the same holds, with the two
  sends in the other order, when the connection cannot be wrapped into a peer. In
  both cases the peer map is the one before the attempt and no peer is handed to
  the peer manager.
\<close>

theorem connect_failure_no_mutation:
  "(dial (identityPriv s) (NetAddr (addr msg)) (remoteId (addr msg)) = Some e \<longrightarrow>
      connectGoroutine dial np s msg =
        s\<lparr>trace := trace s @ [SendErr (err msg) (Some e), SendResp (resp msg) (- 1)]\<rparr>) \<and>
   (dial (identityPriv s) (NetAddr (addr msg)) (remoteId (addr msg)) = None \<and> np = Inl e \<longrightarrow>
      connectGoroutine dial np s msg =
        s\<lparr>trace := trace s @ [SendResp (resp msg) (- 1), SendErr (err msg) (Some e)]\<rparr>) \<and>
   ((dial (identityPriv s) (NetAddr (addr msg)) (remoteId (addr msg)) \<noteq> None \<or> np = Inl e) \<longrightarrow>
      peers (connectGoroutine dial np s msg) = peers s \<and>
      (\<forall>p. SendNewPeers p \<notin> set (drop (length (trace s)) (trace (connectGoroutine dial np s msg)))))"
  by (auto simp: connectGoroutine_def split: option.splits sum.splits)

theorem connect_failure_no_mutation_witness:
  "(\<lambda>k a r. Some ''unreachable'') (identityPriv serverA) (NetAddr (addr msgX)) (remoteId (addr msgX)) = Some ''unreachable'' \<and>
   connectGoroutine (\<lambda>k a r. Some ''unreachable'') (Inr peerC) serverA msgX =
     serverA\<lparr>trace := [SendErr 2 (Some ''unreachable''), SendResp 1 (- 1)]\<rparr> \<and>
   connectGoroutine (\<lambda>k a r. None) (Inl ''no peer'') serverA msgX =
     serverA\<lparr>trace := [SendResp 1 (- 1), SendErr 2 (Some ''no peer'')]\<rparr> \<and>
   peers (connectGoroutine (\<lambda>k a r. Some ''unreachable'') (Inr peerC) serverA msgX) = [7 \<mapsto> peerA]"
  using connect_failure_no_mutation [of "\<lambda>k a r. Some ''unreachable''" serverA msgX "''unreachable''" "Inr peerC"]
    connect_failure_no_mutation [of "\<lambda>k a r. None" serverA msgX "''no peer''" "Inl ''no peer''"]
  by (simp add: serverA_def server0_def msgX_def)

subsection \<open>The outpoint index\<close>

lemma chanIndex_inv_mono:
  "chanIndex t = chanIndex s \<Longrightarrow> dom (peers s) \<subseteq> dom (peers t) \<Longrightarrow> chanIndex_inv s \<Longrightarrow> chanIndex_inv t"
  unfolding chanIndex_inv_def by (metis subsetD)

lemma addPeer_frame:
  "chanIndex (addPeer s p) = chanIndex s \<and> dom (peers s) \<subseteq> dom (peers (addPeer s p))"
  by (auto simp: addPeer_def split: option.splits)

lemma removePeer_chanIndex: "chanIndex (removePeer s p) = chanIndex s"
  by (simp add: removePeer_def split: option.splits)

lemma peerManager_chanIndex: "chanIndex (peerManager s rs) = chanIndex s"
  by (induction s rs rule: peerManager.induct) (simp_all add: addPeer_frame removePeer_chanIndex)

lemma peerManager_dom:
  "\<not> receives_done rs \<Longrightarrow> dom (peers s) \<subseteq> dom (peers (peerManager s rs))"
proof (induction s rs rule: peerManager.induct)
  case (2 s p rs)
  have "dom (peers s) \<subseteq> dom (peers (addPeer s p))"
    using addPeer_frame [of s p] by blast
  also have "\<dots> \<subseteq> dom (peers (peerManager (addPeer s p) rs))"
    using 2 by simp
  finally show ?case by simp
qed simp_all

lemma handleListPeers_frame:
  "chanIndex (handleListPeers ks s msg) = chanIndex s \<and> peers (handleListPeers ks s msg) = peers s"
  by (simp add: handleListPeers_def Let_def)

lemma handleConnectPeer_frame:
  "chanIndex (handleConnectPeer ks s msg) = chanIndex s \<and> peers (handleConnectPeer ks s msg) = peers s"
  by (simp add: handleConnectPeer_def)

lemma queryHandler_frame:
  "chanIndex (queryHandler s rs) = chanIndex s \<and> peers (queryHandler s rs) = peers s"
  by (induction s rs rule: queryHandler.induct) (simp_all add: handleListPeers_frame handleConnectPeer_frame)

lemma connectGoroutine_frame:
  "chanIndex (connectGoroutine dial np s msg) = chanIndex s \<and> peers (connectGoroutine dial np s msg) = peers s"
  by (simp add: connectGoroutine_def split: option.splits sum.splits)

lemma listener_loop_frame:
  "chanIndex (listener_loop s l as) = chanIndex s \<and> peers (listener_loop s l as) = peers s"
  by (induction s l as rule: listener_loop.induct) (simp_all split: accepted.splits sum.splits)

lemma Start_frame: "chanIndex (Start s) = chanIndex s \<and> peers (Start s) = peers s"
  by (simp add: Start_def Let_def)

lemma Stop_frame: "chanIndex (fst (Stop cl s)) = chanIndex s \<and> peers (fst (Stop cl s)) = peers s"
  by (simp add: Stop_def Let_def split: prod.splits option.splits)

lemma run_chanIndex: "chanIndex (run c s) = chanIndex s"
  by (cases c) (simp_all add: Start_frame Stop_frame peerManager_chanIndex queryHandler_frame
      connectGoroutine_frame listener_loop_frame)

lemma run_dom: "no_done c \<Longrightarrow> dom (peers s) \<subseteq> dom (peers (run c s))"
  by (cases c) (simp_all add: Start_frame Stop_frame peerManager_dom queryHandler_frame
      connectGoroutine_frame listener_loop_frame)

lemma removePeer_inv_iff:
  assumes "chanIndex_inv s"
  shows "chanIndex_inv (removePeer s (Some p)) =
           (shutdown s \<noteq> 0 \<or> (\<forall>op q. chanIndex s op = Some q \<longrightarrow> id_peer q \<noteq> id_peer p))"
proof (cases "shutdown s = 0")
  case False
  then have "chanIndex_inv (removePeer s (Some p)) = chanIndex_inv s"
    by (simp add: chanIndex_inv_def removePeer_def)
  with assms False show ?thesis by simp
next
  case True
  have d: "dom (peers (removePeer s (Some p))) = dom (peers s) - {id_peer p}"
    using True by (simp add: removePeer_def)
  have c: "chanIndex (removePeer s (Some p)) = chanIndex s"
    by (simp add: removePeer_chanIndex)
  have "chanIndex_inv (removePeer s (Some p)) =
          (\<forall>op q. chanIndex s op = Some q \<longrightarrow> id_peer q \<in> dom (peers s) - {id_peer p})"
    unfolding chanIndex_inv_def c d ..
  also have "\<dots> = (\<forall>op q. chanIndex s op = Some q \<longrightarrow> id_peer q \<noteq> id_peer p)"
    using assms unfolding chanIndex_inv_def by blast
  finally show ?thesis using True by simp
qed

text \<open>
  C2, as stated, fails: \<open>removePeer\<close> deletes the entry of the peer map and
  leaves the outpoint index alone. With a channel of \<open>peerA\<close> in the index, the
  invariant holds before \<open>peerA\<close> is removed and not after.
\<close>

theorem removePeer_breaks_chanIndex_counterexample:
  "chanIndex_inv serverI \<and>
   \<not> chanIndex_inv (run (CallPeerManager [RecvDonePeer (Some peerA)]) serverI) \<and>
   chanIndex (run (CallPeerManager [RecvDonePeer (Some peerA)]) serverI) ([0], 0) = Some peerA \<and>
   peers (run (CallPeerManager [RecvDonePeer (Some peerA)]) serverI) = Map.empty"
  by (auto simp: chanIndex_inv_def removePeer_def serverI_def serverA_def server0_def peerA_def)

text \<open>
  C2, amended. No entry point of the server changes the outpoint index. Every call
  in which the peer manager receives no finished peer preserves the invariant that
  each peer of the index has its id in the peer map. \<open>removePeer\<close> deletes only
  the entry of the peer map, and nothing at all when the shutdown flag is set; the
  entries of the index that refer to the removed peer stay. So, from a state in
  which the invariant holds, it holds after \<open>removePeer\<close> exactly when the
  shutdown flag is set or no entry of the index refers to the id that is removed.
\<close>

theorem chanIndex_inv_preserved_unless_removed:
  "chanIndex (run c s) = chanIndex s \<and>
   (chanIndex_inv s \<and> no_done c \<longrightarrow> chanIndex_inv (run c s)) \<and>
   chanIndex (removePeer s (Some p)) = chanIndex s \<and>
   peers (removePeer s (Some p)) = (if shutdown s \<noteq> 0 then peers s else (peers s)(id_peer p := None)) \<and>
   (chanIndex_inv s \<longrightarrow>
      chanIndex_inv (removePeer s (Some p)) =
        (shutdown s \<noteq> 0 \<or> (\<forall>op q. chanIndex s op = Some q \<longrightarrow> id_peer q \<noteq> id_peer p)))"
proof -
  have a: "chanIndex_inv (run c s)" if "chanIndex_inv s" and "no_done c"
    using chanIndex_inv_mono [OF run_chanIndex run_dom] that by blast
  have b: "peers (removePeer s (Some p)) = (if shutdown s \<noteq> 0 then peers s else (peers s)(id_peer p := None))"
    by (simp add: removePeer_def)
  from a b removePeer_inv_iff [of s p] show ?thesis
    by (simp add: run_chanIndex removePeer_chanIndex)
qed

theorem chanIndex_inv_preserved_unless_removed_witness:
  "chanIndex_inv serverJ \<and>
   no_done (CallPeerManager [RecvNewPeer (Some peerB), RecvQuit]) \<and>
   chanIndex_inv (run (CallPeerManager [RecvNewPeer (Some peerB), RecvQuit]) serverJ) \<and>
   peers (run (CallPeerManager [RecvNewPeer (Some peerB), RecvQuit]) serverJ) = [7 \<mapsto> peerB, 8 \<mapsto> peerC] \<and>
   chanIndex (run (CallPeerManager [RecvNewPeer (Some peerB), RecvQuit]) serverJ) = [([0], 0) \<mapsto> peerA] \<and>
   peers serverJ (id_peer peerC) = Some peerC \<and>
   peers (removePeer serverJ (Some peerC)) = [7 \<mapsto> peerA] \<and>
   chanIndex_inv (removePeer serverJ (Some peerC)) \<and>
   peers (removePeer serverJ (Some peerA)) = [8 \<mapsto> peerC] \<and>
   \<not> chanIndex_inv (removePeer serverJ (Some peerA)) \<and>
   peers (removePeer (serverJ\<lparr>shutdown := 1\<rparr>) (Some peerA)) = [7 \<mapsto> peerA, 8 \<mapsto> peerC] \<and>
   chanIndex_inv (removePeer (serverJ\<lparr>shutdown := 1\<rparr>) (Some peerA))"
proof -
  have h1: "chanIndex_inv serverJ"
    by (auto simp: chanIndex_inv_def serverJ_def serverI_def serverA_def server0_def peerA_def)
  have h1': "chanIndex_inv (serverJ\<lparr>shutdown := 1\<rparr>)"
    using h1 by (simp add: chanIndex_inv_def)
  have h2: "no_done (CallPeerManager [RecvNewPeer (Some peerB), RecvQuit])" by simp
  have h3: "\<forall>op q. chanIndex serverJ op = Some q \<longrightarrow> id_peer q \<noteq> id_peer peerC"
    by (auto simp: serverJ_def serverI_def serverA_def server0_def peerA_def peerC_def)
  have h4: "\<not> (\<forall>op q. chanIndex serverJ op = Some q \<longrightarrow> id_peer q \<noteq> id_peer peerA)"
    by (auto simp: serverJ_def serverI_def serverA_def server0_def)
  have h5: "shutdown serverJ = 0" by (simp add: serverJ_def serverI_def serverA_def server0_def)
  note t1 = chanIndex_inv_preserved_unless_removed
      [of "CallPeerManager [RecvNewPeer (Some peerB), RecvQuit]" serverJ peerC]
  note t2 = chanIndex_inv_preserved_unless_removed [of CallStart serverJ peerA]
  note t3 = chanIndex_inv_preserved_unless_removed [of CallStart "serverJ\<lparr>shutdown := 1\<rparr>" peerA]
  have a: "chanIndex_inv (run (CallPeerManager [RecvNewPeer (Some peerB), RecvQuit]) serverJ)"
    using t1 h1 h2 by blast
  have b: "chanIndex_inv (removePeer serverJ (Some peerC))"
    using t1 h1 h3 h5 by blast
  have c: "\<not> chanIndex_inv (removePeer serverJ (Some peerA))"
    using t2 h1 h4 h5 by blast
  have d: "chanIndex_inv (removePeer (serverJ\<lparr>shutdown := 1\<rparr>) (Some peerA))"
    using t3 h1' by simp
  have e: "peers (run (CallPeerManager [RecvNewPeer (Some peerB), RecvQuit]) serverJ) = [7 \<mapsto> peerB, 8 \<mapsto> peerC]"
    by (auto simp: addPeer_def serverJ_def serverI_def serverA_def server0_def peerB_def)
  have f: "chanIndex (run (CallPeerManager [RecvNewPeer (Some peerB), RecvQuit]) serverJ) = [([0], 0) \<mapsto> peerA]"
    using t1 by (simp add: serverJ_def serverI_def)
  have g: "peers (removePeer serverJ (Some peerC)) = [7 \<mapsto> peerA]"
    using t1 h5 by (auto simp: serverJ_def peerC_def)
  have h: "peers (removePeer serverJ (Some peerA)) = [8 \<mapsto> peerC]"
    using t2 h5 by (auto simp: serverJ_def peerA_def)
  have i: "peers (removePeer (serverJ\<lparr>shutdown := 1\<rparr>) (Some peerA)) = [7 \<mapsto> peerA, 8 \<mapsto> peerC]"
    using t3 by (simp add: serverJ_def)
  have j: "peers serverJ (id_peer peerC) = Some peerC"
    by (simp add: serverJ_def peerC_def)
  from h1 h2 a b c d e f g h i j show ?thesis by simp
qed

subsection \<open>Stop\<close>

lemma closeListeners_first_error:
  "\<forall>x\<in>set ls1. cl x = None \<Longrightarrow> cl l = Some e \<Longrightarrow>
   closeListeners cl (ls1 @ l # ls2) = (map ListenerClose (ls1 @ [l]), Some e)"
  by (induction ls1) simp_all

lemma closeListeners_all_ok:
  "\<forall>x\<in>set ls. cl x = None \<Longrightarrow> closeListeners cl ls = (map ListenerClose ls, None)"
  by (induction ls) simp_all

lemma Stop_again:
  "shutdown t \<noteq> 0 \<Longrightarrow> Stop cl t = (t\<lparr>shutdown := shutdown t + 1\<rparr>, Return None)"
  by (simp add: Stop_def Let_def)

lemma word32_of_nat_nonzero:
  "0 < k \<Longrightarrow> k < 2 ^ 32 \<Longrightarrow> (of_nat k :: 32 word) \<noteq> 0"
  by (auto simp: word_of_nat_eq_0_iff dest: nat_dvd_not_less)

lemma Stop_times_counter:
  "shutdown t = of_nat k \<Longrightarrow> 0 < k \<Longrightarrow> k + n < 2 ^ 32 \<Longrightarrow>
   Stop_times n cl t = t\<lparr>shutdown := of_nat (k + n)\<rparr>"
proof (induction n arbitrary: t k)
  case 0
  then show ?case by simp
next
  case (Suc n)
  have nz: "shutdown t \<noteq> 0"
    using Suc.prems word32_of_nat_nonzero [of k] by simp
  have st: "fst (Stop cl t) = t\<lparr>shutdown := of_nat (Suc k)\<rparr>"
    using Stop_again [OF nz, of cl] Suc.prems(1) by simp
  have "Stop_times n cl (t\<lparr>shutdown := of_nat (Suc k)\<rparr>) = t\<lparr>shutdown := of_nat (Suc k)\<rparr>\<lparr>shutdown := of_nat (Suc k + n)\<rparr>"
    using Suc.prems by (intro Suc.IH) simp_all
  with st show ?case by simp
qed

text \<open>
  C4. When \<open>Stop\<close> is the call that wins the counter and \<open>Close\<close> fails on a
  listener after succeeding on those before it, \<open>Stop\<close> returns that error; only
  the listeners up to the failing one have been closed, the RPC server, the wallet
  and the funding manager have not been stopped, the quit channel is as it was and
  the wait group has not been waited for.
\<close>

theorem Stop_listener_error:
  assumes "shutdown s = 0"
    and "listeners s = ls1 @ l # ls2"
    and "\<forall>x\<in>set ls1. cl x = None"
    and "cl l = Some e"
  shows "Stop cl s = (s\<lparr>shutdown := 1, trace := trace s @ map ListenerClose (ls1 @ [l])\<rparr>, Return (Some e)) \<and>
         quit (fst (Stop cl s)) = quit s \<and>
         RpcServerStop \<notin> set (map ListenerClose (ls1 @ [l])) \<and>
         WalletShutdown \<notin> set (map ListenerClose (ls1 @ [l])) \<and>
         FundingMgrStop \<notin> set (map ListenerClose (ls1 @ [l])) \<and>
         WgWait \<notin> set (map ListenerClose (ls1 @ [l]))"
proof -
  have c: "closeListeners cl (listeners s) = (map ListenerClose (ls1 @ [l]), Some e)"
    using assms(2-4) closeListeners_first_error [of ls1 cl l e ls2] by simp
  have "Stop cl s = (s\<lparr>shutdown := 1, trace := trace s @ map ListenerClose (ls1 @ [l])\<rparr>, Return (Some e))"
    using assms(1) c by (simp add: Stop_def Let_def)
  then show ?thesis by auto
qed

theorem Stop_listener_error_witness:
  "shutdown server0 = 0 \<and>
   listeners server0 = [Listener ''a''] @ Listener ''b'' # [] \<and>
   (\<lambda>x. if x = Listener ''b'' then Some ''busy'' else None) (Listener ''a'') = None \<and>
   (\<lambda>x. if x = Listener ''b'' then Some ''busy'' else None) (Listener ''b'') = Some ''busy'' \<and>
   Stop (\<lambda>x. if x = Listener ''b'' then Some ''busy'' else None) server0 =
     (server0\<lparr>shutdown := 1, trace := [ListenerClose (Listener ''a''), ListenerClose (Listener ''b'')]\<rparr>,
      Return (Some ''busy''))"
proof -
  have h1: "shutdown server0 = 0" by (simp add: server0_def)
  have h2: "listeners server0 = [Listener ''a''] @ Listener ''b'' # []" by (simp add: server0_def)
  have h3: "\<forall>x\<in>set [Listener ''a'']. (\<lambda>x. if x = Listener ''b'' then Some ''busy'' else None) x = None" by simp
  have h4: "(\<lambda>x. if x = Listener ''b'' then Some ''busy'' else None) (Listener ''b'') = Some ''busy''" by simp
  from Stop_listener_error [OF h1 h2 h3 h4] h1 h2 show ?thesis
    by (simp add: server0_def)
qed

text \<open>
  C6, as stated, fails for the first call: when the first listener does not close,
  the first call of \<open>Stop\<close> returns the error, the second listener is not
  closed, no collaborator is stopped and the quit channel stays open.
\<close>

theorem Stop_first_call_aborts_counterexample:
  "shutdown server0 = 0 \<and> \<not> quit server0 \<and>
   Stop (\<lambda>x. Some ''busy'') server0 =
     (server0\<lparr>shutdown := 1, trace := [ListenerClose (Listener ''a'')]\<rparr>, Return (Some ''busy'')) \<and>
   \<not> quit (fst (Stop (\<lambda>x. Some ''busy'') server0)) \<and>
   RpcServerStop \<notin> set (trace (fst (Stop (\<lambda>x. Some ''busy'') server0))) \<and>
   ListenerClose (Listener ''b'') \<notin> set (trace (fst (Stop (\<lambda>x. Some ''busy'') server0)))"
  by (simp add: Stop_def Let_def server0_def)

text \<open>
  C6, amended. \<open>Stop\<close> is one-shot. The first call, when every listener closes
  without error (and the quit channel is still open), closes the listeners in
  order, stops the RPC server, the wallet and the funding manager, closes the quit
  channel and waits for the wait group. Whatever the first call did, each of the
  next \<open>2^32 - 1\<close> calls returns nil and changes nothing but the 32-bit counter:
  after \<open>n < 2^32 - 1\<close> further calls the server is as the first call left it,
  with the counter at \<open>n + 1\<close>, and one more call again only counts.
\<close>

theorem Stop_one_shot:
  assumes "shutdown s = 0" and "n < 2 ^ 32 - 1"
  shows "(\<not> quit s \<and> (\<forall>l\<in>set (listeners s). cl l = None) \<longrightarrow>
            Stop cl s =
              (s\<lparr>shutdown := 1, quit := True,
                 trace := trace s @ map ListenerClose (listeners s)
                          @ [RpcServerStop, WalletShutdown, FundingMgrStop, WgWait]\<rparr>,
               Return None)) \<and>
         Stop_times n cl' (fst (Stop cl s)) = (fst (Stop cl s))\<lparr>shutdown := of_nat (Suc n)\<rparr> \<and>
         Stop cl' (Stop_times n cl' (fst (Stop cl s))) =
           ((fst (Stop cl s))\<lparr>shutdown := of_nat (Suc (Suc n))\<rparr>, Return None)"
proof -
  have first: "Stop cl s =
      (s\<lparr>shutdown := 1, quit := True,
         trace := trace s @ map ListenerClose (listeners s)
                  @ [RpcServerStop, WalletShutdown, FundingMgrStop, WgWait]\<rparr>, Return None)"
    if "\<not> quit s" and "\<forall>l\<in>set (listeners s). cl l = None"
    using that assms(1) closeListeners_all_ok [of "listeners s" cl]
    by (simp add: Stop_def Let_def)
  have one: "shutdown (fst (Stop cl s)) = of_nat 1"
    using assms(1) by (simp add: Stop_def Let_def split: prod.splits option.splits)
  have times: "Stop_times n cl' (fst (Stop cl s)) = (fst (Stop cl s))\<lparr>shutdown := of_nat (1 + n)\<rparr>"
    using assms(2) by (intro Stop_times_counter [OF one]) simp_all
  have nz: "(of_nat (Suc n) :: 32 word) \<noteq> 0"
    using assms(2) by (intro word32_of_nat_nonzero) simp_all
  have again: "Stop cl' ((fst (Stop cl s))\<lparr>shutdown := of_nat (Suc n)\<rparr>) =
      ((fst (Stop cl s))\<lparr>shutdown := of_nat (Suc (Suc n))\<rparr>, Return None)"
    using nz Stop_again [of "(fst (Stop cl s))\<lparr>shutdown := of_nat (Suc n)\<rparr>" cl'] by simp
  from first times again show ?thesis by simp
qed

theorem Stop_one_shot_witness:
  "shutdown server0 = 0 \<and> (5::nat) < 2 ^ 32 - 1 \<and> \<not> quit server0 \<and>
   Stop (\<lambda>x. None) server0 =
     (server0\<lparr>shutdown := 1, quit := True,
        trace := [ListenerClose (Listener ''a''), ListenerClose (Listener ''b''),
                  RpcServerStop, WalletShutdown, FundingMgrStop, WgWait]\<rparr>, Return None) \<and>
   Stop (\<lambda>x. Some ''busy'') (Stop_times 5 (\<lambda>x. Some ''busy'') (fst (Stop (\<lambda>x. None) server0))) =
     (server0\<lparr>shutdown := 7, quit := True,
        trace := [ListenerClose (Listener ''a''), ListenerClose (Listener ''b''),
                  RpcServerStop, WalletShutdown, FundingMgrStop, WgWait]\<rparr>, Return None)"
proof -
  have h1: "shutdown server0 = 0" by (simp add: server0_def)
  have h2: "(5::nat) < 2 ^ 32 - 1" by simp
  have h3: "\<not> quit server0" by (simp add: server0_def)
  have h4: "\<forall>l\<in>set (listeners server0). (\<lambda>x. None) l = (None :: error option)" by simp
  note t = Stop_one_shot [OF h1 h2, of "\<lambda>x. None" "\<lambda>x. Some ''busy''"]
  from t h3 h4 have a: "Stop (\<lambda>x. None) server0 =
     (server0\<lparr>shutdown := 1, quit := True,
        trace := trace server0 @ map ListenerClose (listeners server0)
                 @ [RpcServerStop, WalletShutdown, FundingMgrStop, WgWait]\<rparr>, Return None)"
    by blast
  from t have b: "Stop (\<lambda>x. Some ''busy'') (Stop_times 5 (\<lambda>x. Some ''busy'') (fst (Stop (\<lambda>x. None) server0))) =
     ((fst (Stop (\<lambda>x. None) server0))\<lparr>shutdown := of_nat (Suc (Suc 5))\<rparr>, Return None)"
    by blast
  show ?thesis
    unfolding b unfolding a using h1 h2 h3 by (simp add: server0_def)
qed

text \<open>
  The bound is needed: the counter is 32 bits wide, and the call that finds it at
  \<open>2^32 - 1\<close> sets it back to 0, so that the call after it reads 1 again.
\<close>

lemma Stop_counter_wraps:
  "Stop cl (s\<lparr>shutdown := - 1\<rparr>) = (s\<lparr>shutdown := 0\<rparr>, Return None)"
  by (simp add: Stop_def Let_def)

subsection \<open>Listing the peers\<close>

lemma appendPeers_dom:
  "set ks \<subseteq> dom m \<Longrightarrow> appendPeers m ks ps = ps @ map (\<lambda>k. the (m k)) ks"
  by (induction ks arbitrary: ps) (auto split: option.splits)

lemma keyed_by_id_map:
  "keyed_by_id m \<Longrightarrow> set ks \<subseteq> dom m \<Longrightarrow> map (\<lambda>k. id_peer (the (m k))) ks = ks"
  by (induction ks) (auto simp: keyed_by_id_def)

text \<open>
  The peer map of a new server is keyed by id, and every entry point keeps it so.
\<close>

lemma keyed_by_id_addPeer: "keyed_by_id (peers s) \<Longrightarrow> keyed_by_id (peers (addPeer s p))"
  by (auto simp: keyed_by_id_def addPeer_def split: option.splits)

lemma keyed_by_id_removePeer: "keyed_by_id (peers s) \<Longrightarrow> keyed_by_id (peers (removePeer s p))"
  by (auto simp: keyed_by_id_def removePeer_def split: option.splits)

lemma keyed_by_id_peerManager: "keyed_by_id (peers s) \<Longrightarrow> keyed_by_id (peers (peerManager s rs))"
  by (induction s rs rule: peerManager.induct)
    (simp_all add: keyed_by_id_addPeer keyed_by_id_removePeer)

lemma keyed_by_id_newServer: "newServer k nl as = Inr s \<Longrightarrow> keyed_by_id (peers s)"
  by (auto simp: newServer_def keyed_by_id_def split: sum.splits)

lemma keyed_by_id_run: "keyed_by_id (peers s) \<Longrightarrow> keyed_by_id (peers (run c s))"
  by (cases c) (simp_all add: Start_frame Stop_frame keyed_by_id_peerManager queryHandler_frame
      connectGoroutine_frame listener_loop_frame)

text \<open>
  C5. In a registry keyed by id, whatever the order \<open>ks\<close> in which the loop visits
  the keys, \<open>handleListPeers\<close> sends a slice whose peers have pairwise different
  ids, whose length is the number of entries of the peer map and whose elements are
  the registered peers. The slice is a new one: it is stored at an address that no
  slice had before, the slices that existed are as they were, and the peer map is
  not changed by the query.
\<close>

theorem handleListPeers_snapshot:
  assumes "keyed_by_id (peers s)" and "distinct ks" and "set ks = dom (peers s)"
  shows "handleListPeers ks s msg =
           s\<lparr>slices := slices s @ [appendPeers (peers s) ks []],
              trace := trace s @ [SendPeers (resp_peers msg) (length (slices s))]\<rparr> \<and>
         distinct (map id_peer (appendPeers (peers s) ks [])) \<and>
         length (appendPeers (peers s) ks []) = card (dom (peers s)) \<and>
         set (appendPeers (peers s) ks []) = ran (peers s) \<and>
         peers (handleListPeers ks s msg) = peers s \<and>
         take (length (slices s)) (slices (handleListPeers ks s msg)) = slices s \<and>
         slices (handleListPeers ks s msg) ! length (slices s) = appendPeers (peers s) ks []"
proof -
  have sub: "set ks \<subseteq> dom (peers s)" using assms(3) by simp
  have ap: "appendPeers (peers s) ks [] = map (\<lambda>k. the (peers s k)) ks"
    using appendPeers_dom [OF sub, of "[]"] by simp
  have ids: "map id_peer (appendPeers (peers s) ks []) = ks"
    using keyed_by_id_map [OF assms(1) sub] by (simp add: ap comp_def)
  have len: "length (appendPeers (peers s) ks []) = card (dom (peers s))"
    using assms(2,3) distinct_card [of ks] by (simp add: ap)
  have rn: "set (appendPeers (peers s) ks []) = ran (peers s)"
  proof
    show "set (appendPeers (peers s) ks []) \<subseteq> ran (peers s)"
      using sub by (fastforce simp: ap ran_def)
    show "ran (peers s) \<subseteq> set (appendPeers (peers s) ks [])"
    proof
      fix p assume "p \<in> ran (peers s)"
      then obtain k where k: "peers s k = Some p" by (auto simp: ran_def)
      then have "k \<in> set ks" using assms(3) by auto
      then have "the (peers s k) \<in> set (appendPeers (peers s) ks [])" by (simp add: ap)
      with k show "p \<in> set (appendPeers (peers s) ks [])" by simp
    qed
  qed
  show ?thesis
    using ids len rn assms(2) by (simp add: handleListPeers_def Let_def)
qed

theorem handleListPeers_snapshot_witness:
  "keyed_by_id (peers (serverA\<lparr>peers := [7 \<mapsto> peerA, 8 \<mapsto> peerC]\<rparr>)) \<and> distinct [8, 7 :: int32] \<and>
   set [8, 7] = dom (peers (serverA\<lparr>peers := [7 \<mapsto> peerA, 8 \<mapsto> peerC]\<rparr>)) \<and>
   handleListPeers [8, 7] (serverA\<lparr>peers := [7 \<mapsto> peerA, 8 \<mapsto> peerC]\<rparr>) \<lparr>resp_peers = 3\<rparr> =
     serverA\<lparr>peers := [7 \<mapsto> peerA, 8 \<mapsto> peerC], slices := [[peerC, peerA]], trace := [SendPeers 3 0]\<rparr> \<and>
   card (dom (peers (serverA\<lparr>peers := [7 \<mapsto> peerA, 8 \<mapsto> peerC]\<rparr>))) = 2"
proof -
  have h1: "keyed_by_id (peers (serverA\<lparr>peers := [7 \<mapsto> peerA, 8 \<mapsto> peerC]\<rparr>))"
    by (simp add: keyed_by_id_def peerA_def peerC_def)
  have h2: "distinct [8, 7 :: int32]" by simp
  have h3: "set [8, 7] = dom (peers (serverA\<lparr>peers := [7 \<mapsto> peerA, 8 \<mapsto> peerC]\<rparr>))" by auto
  from handleListPeers_snapshot [OF h1 h2 h3, of "\<lparr>resp_peers = 3\<rparr>"] h1 h2 h3 show ?thesis
    by (simp add: serverA_def server0_def)
qed

subsection \<open>Adding and removing peers\<close>

text \<open>
  C7. \<open>addPeer(p)\<close> leaves the server as it is when \<open>p\<close> is nil; when the
  shutdown flag is set it stops the peer and leaves the peer map unchanged, so the
  peer is not registered by the call; otherwise it stores \<open>p\<close> in the map under
  its id and does nothing else.
\<close>

theorem addPeer_cases:
  "addPeer s None = s \<and>
   (shutdown s \<noteq> 0 \<longrightarrow>
      peers (addPeer s (Some p)) = peers s \<and>
      trace (addPeer s (Some p)) = trace s @ [PeerStop p]) \<and>
   (shutdown s = 0 \<longrightarrow>
      peers (addPeer s (Some p)) = (peers s)(id_peer p \<mapsto> p) \<and>
      peers (addPeer s (Some p)) (id_peer p) = Some p \<and>
      trace (addPeer s (Some p)) = trace s)"
  by (simp add: addPeer_def)

theorem addPeer_cases_witness:
  "shutdown (server0\<lparr>shutdown := 1\<rparr>) \<noteq> 0 \<and>
   peers (addPeer (server0\<lparr>shutdown := 1\<rparr>) (Some peerA)) = Map.empty \<and>
   trace (addPeer (server0\<lparr>shutdown := 1\<rparr>) (Some peerA)) = [PeerStop peerA] \<and>
   shutdown server0 = 0 \<and>
   peers (addPeer server0 (Some peerA)) = [7 \<mapsto> peerA] \<and>
   trace (addPeer server0 (Some peerA)) = []"
  using addPeer_cases [of "server0\<lparr>shutdown := 1\<rparr>" peerA] addPeer_cases [of server0 peerA]
  by (simp add: server0_def peerA_def)

text \<open>
  C8. \<open>removePeer\<close> with a peer whose id is not in the map leaves the map as it
  is; with the shutdown flag set it stops the peer and changes nothing else, so the
  map is not touched; and removing the same peer a second time leaves the map as the
  first removal left it.
\<close>

theorem removePeer_idempotent:
  "removePeer s None = s \<and>
   (id_peer p \<notin> dom (peers s) \<longrightarrow> peers (removePeer s (Some p)) = peers s) \<and>
   (shutdown s \<noteq> 0 \<longrightarrow>
      removePeer s (Some p) = s\<lparr>trace := trace s @ [PeerStop p]\<rparr> \<and>
      peers (removePeer s (Some p)) = peers s) \<and>
   peers (removePeer (removePeer s q) q) = peers (removePeer s q)"
  by (cases q) (auto simp: removePeer_def fun_upd_idem_iff domIff)

theorem removePeer_idempotent_witness:
  "id_peer peerC \<notin> dom (peers serverA) \<and>
   peers (removePeer serverA (Some peerC)) = [7 \<mapsto> peerA] \<and>
   shutdown (serverA\<lparr>shutdown := 1\<rparr>) \<noteq> 0 \<and>
   peers (removePeer (serverA\<lparr>shutdown := 1\<rparr>) (Some peerA)) = [7 \<mapsto> peerA] \<and>
   trace (removePeer (serverA\<lparr>shutdown := 1\<rparr>) (Some peerA)) = [PeerStop peerA]"
  using removePeer_idempotent [of serverA peerC] removePeer_idempotent [of "serverA\<lparr>shutdown := 1\<rparr>" peerA]
  by (simp add: serverA_def server0_def peerC_def)

text \<open>
  C9, as stated, fails once the shutdown flag is set: \<open>peerA\<close> is registered under
  id 7, \<open>addPeer\<close> is called with \<open>peerB\<close> of the same id, and the map still
  holds \<open>peerA\<close> afterwards, while \<open>peerB\<close> has been stopped.
\<close>

theorem addPeer_same_id_shutdown_counterexample:
  "peers (serverA\<lparr>shutdown := 1\<rparr>) (id_peer peerB) = Some peerA \<and>
   id_peer peerB = id_peer peerA \<and>
   peers (addPeer (serverA\<lparr>shutdown := 1\<rparr>) (Some peerB)) (id_peer peerB) = Some peerA \<and>
   peers (addPeer (serverA\<lparr>shutdown := 1\<rparr>) (Some peerB)) (id_peer peerB) \<noteq> Some peerB \<and>
   trace (addPeer (serverA\<lparr>shutdown := 1\<rparr>) (Some peerB)) = [PeerStop peerB]"
  by (simp add: addPeer_def serverA_def server0_def peerA_def peerB_def)

text \<open>
  C9, amended. While the shutdown flag is clear, \<open>addPeer\<close> with a peer whose id
  is the id of a registered peer stores the new peer in the place of the old one:
  the map has the same keys as before, nothing is appended to the trace (the old
  peer is not stopped and no error is reported), and in a map keyed by id the old
  peer, when it is another peer, is no longer a value of the map.
\<close>

theorem addPeer_same_id_replaces:
  assumes "shutdown s = 0" and "peers s (id_peer p) = Some old"
  shows "peers (addPeer s (Some p)) = (peers s)(id_peer p \<mapsto> p) \<and>
         peers (addPeer s (Some p)) (id_peer p) = Some p \<and>
         dom (peers (addPeer s (Some p))) = dom (peers s) \<and>
         trace (addPeer s (Some p)) = trace s \<and>
         (keyed_by_id (peers s) \<and> old \<noteq> p \<longrightarrow> old \<notin> ran (peers (addPeer s (Some p))))"
proof -
  have upd: "peers (addPeer s (Some p)) = (peers s)(id_peer p \<mapsto> p)"
    and tr: "trace (addPeer s (Some p)) = trace s"
    using assms(1) by (simp_all add: addPeer_def)
  have d: "dom ((peers s)(id_peer p \<mapsto> p)) = dom (peers s)"
    using assms(2) by auto
  have "old \<notin> ran ((peers s)(id_peer p \<mapsto> p))" if k: "keyed_by_id (peers s)" and ne: "old \<noteq> p"
  proof
    assume "old \<in> ran ((peers s)(id_peer p \<mapsto> p))"
    then obtain k where kk: "((peers s)(id_peer p \<mapsto> p)) k = Some old"
      by (auto simp: ran_def)
    show False
    proof (cases "k = id_peer p")
      case True
      with kk ne show False by simp
    next
      case False
      with kk have "peers s k = Some old" by simp
      with k have "id_peer old = k" by (simp add: keyed_by_id_def)
      moreover from k assms(2) have "id_peer old = id_peer p" by (simp add: keyed_by_id_def)
      ultimately show False using False by simp
    qed
  qed
  with upd tr d show ?thesis by simp
qed

theorem addPeer_same_id_replaces_witness:
  "shutdown serverA = 0 \<and> peers serverA (id_peer peerB) = Some peerA \<and>
   peers (addPeer serverA (Some peerB)) = [7 \<mapsto> peerB] \<and>
   trace (addPeer serverA (Some peerB)) = [] \<and>
   keyed_by_id (peers serverA) \<and> peerA \<noteq> peerB \<and>
   peerA \<notin> ran (peers (addPeer serverA (Some peerB)))"
proof -
  have h1: "shutdown serverA = 0" by (simp add: serverA_def server0_def)
  have h2: "peers serverA (id_peer peerB) = Some peerA" by (simp add: serverA_def server0_def peerB_def)
  have h3: "keyed_by_id (peers serverA)" by (simp add: keyed_by_id_def serverA_def server0_def peerA_def)
  have h4: "peerA \<noteq> peerB" by (simp add: peerA_def peerB_def)
  from addPeer_same_id_replaces [OF h1 h2] h1 h2 h3 h4 show ?thesis
    by (simp add: serverA_def server0_def peerB_def)
qed

end
